theory Spec2Isabelle
  imports Main
begin

section \<open>Referee box states: the task specification readers\<close>

text \<open>
  The module \<^verbatim>\<open>referee_box_states.py\<close> holds four SMACH states. Two of them
  (\<^verbatim>\<open>get_basic_transportation_task\<close> and \<^verbatim>\<open>get_basic_competitive_task\<close>) take a
  specification string from the referee box apart themselves and append one \<^verbatim>\<open>Bunch\<close>
  per placement entry to \<^verbatim>\<open>userdata.task_list\<close>; the other two (\<^verbatim>\<open>get_task\<close> and
  \<^verbatim>\<open>re_get_task\<close>) hand the string to \<^verbatim>\<open>tasks.parse_task\<close>.

  The referee box (\<^verbatim>\<open>referee_box_communication.obtainTaskSpecFromServer\<close>) and
  \<^verbatim>\<open>tasks.parse_task\<close> are collaborators outside this module: the string received and
  the parse function are parameters of the model. Logging has no effect on the results
  and is left out.
\<close>

subsection \<open>Python strings, slices, \<^verbatim>\<open>split\<close> and \<^verbatim>\<open>re.findall\<close>\<close>

text \<open>The exceptions that the modelled code can raise.\<close>

datatype py_error = IndexError | UnboundLocalError | KeyError | TaskSpecFormatError | OtherError

text \<open>The outcome labels of the states.\<close>

datatype outcome = task_received | wrong_task_format

text \<open>
  \<^verbatim>\<open>s[i:j]\<close> for \<open>0 \<le> i\<close> and \<open>0 \<le> j\<close>: a slice never raises, it is cut to the
  string.
\<close>

definition slice :: "string \<Rightarrow> nat \<Rightarrow> nat \<Rightarrow> string" where
  "slice s i j = take (j - i) (drop i s)"

text \<open>
  \<^verbatim>\<open>s.split(c)\<close> with a one-character separator: the fields between the separators,
  empty fields kept, so the result always has at least one field.
\<close>

fun split_on :: "char \<Rightarrow> string \<Rightarrow> string list" where
  "split_on c [] = [[]]"
| "split_on c (x # xs) =
     (if x = c then [] # split_on c xs
      else (case split_on c xs of
              [] \<Rightarrow> [[x]]
            | f # fs \<Rightarrow> (x # f) # fs))"

text \<open>
  The two patterns of the module are an escaped opening character, the lazy named
  group \<^verbatim>\<open>(?P<name>.*?)\<close> and an escaped closing character, for the pairs \<^verbatim>\<open>< >\<close>
  and \<^verbatim>\<open>( )\<close>. This is the group, read after the opening character has matched:
  the shortest run of characters up to the first closing character, where \<^verbatim>\<open>.\<close>
  matches every character but the newline. The result is the group and the text after
  the closing character.
\<close>

fun lazy_until :: "char \<Rightarrow> string \<Rightarrow> (string \<times> string) option" where
  "lazy_until c [] = None"
| "lazy_until c (x # xs) =
     (if x = c then Some ([], xs)
      else if x = CHR 0x0A then None
      else (case lazy_until c xs of
              None \<Rightarrow> None
            | Some (g, rest) \<Rightarrow> Some (x # g, rest)))"

lemma lazy_until_shorter [termination_simp]:
  "lazy_until c xs = Some (g, rest) \<Longrightarrow> length rest < Suc (length xs)"
  by (induction xs arbitrary: g rest) (auto split: if_splits option.splits)

text \<open>
  \<^verbatim>\<open>re.findall\<close> for a pattern of the shape \<^verbatim>\<open>o(.*?)c\<close>: the groups of the
  non-overlapping matches from left to right. Where the match fails at an opening
  character the search goes on at the next position.
\<close>

fun findall :: "char \<Rightarrow> char \<Rightarrow> string \<Rightarrow> string list" where
  "findall opn cls [] = []"
| "findall opn cls (x # xs) =
     (if x = opn then
        (case lazy_until cls xs of
           None \<Rightarrow> findall opn cls xs
         | Some (g, rest) \<Rightarrow> g # findall opn cls rest)
      else findall opn cls xs)"

subsection \<open>The records appended to the task list\<close>

text \<open>
  \<^verbatim>\<open>Bunch(**kwds)\<close> is an object whose attributes are exactly the keyword arguments:
  an attribute that was not given does not exist. The values stored here are strings
  and lists of strings.
\<close>

datatype pyval = Str string | StrList "string list"

datatype Bunch = Bunch "(string \<times> pyval) list"

fun getattr :: "Bunch \<Rightarrow> string \<Rightarrow> pyval option" where
  "getattr (Bunch kwds) name = map_of kwds name"

definition hasattr :: "Bunch \<Rightarrow> string \<Rightarrow> bool" where
  "hasattr b name = (getattr b name \<noteq> None)"

subsection \<open>\<^verbatim>\<open>get_basic_transportation_task\<close>\<close>

text \<open>
  Lines 161-163: every object name equal to \<^verbatim>\<open>V20\<close> is overwritten by \<^verbatim>\<open>R20\<close>.
\<close>

definition rename_V20 :: "string list \<Rightarrow> string list" where
  "rename_V20 objs = map (\<lambda>obj. if obj = ''V20'' then ''R20'' else obj) objs"

text \<open>
  The body of the loop over the entries of the initial situation (lines 154-170), up to
  the record that is appended. \<^verbatim>\<open>objs[0]\<close> raises \<^verbatim>\<open>IndexError\<close> when the entry has no
  parenthesised group. \<^verbatim>\<open>obj_conf\<close> is computed and not stored.
\<close>

definition btt_initial_entry :: "string \<Rightarrow> py_error + Bunch" where
  "btt_initial_entry item =
     (let desired_loc = slice item 0 2;
          obj_taskspec = slice item 3 (length item);
          objs = findall CHR ''('' CHR '')'' obj_taskspec
      in case objs of
           [] \<Rightarrow> Inl IndexError
         | first # _ \<Rightarrow>
             (let objs = rename_V20 (split_on CHR '','' first);
                  obj_conf = hd (split_on CHR ''('' obj_taskspec)
              in Inr (Bunch [(''type'', Str ''source''),
                             (''location'', Str desired_loc),
                             (''object_names'', StrList objs)])))"

text \<open>The body of the loop over the entries of the goal situation (lines 190-207).\<close>

definition btt_goal_entry :: "string \<Rightarrow> py_error + Bunch" where
  "btt_goal_entry item =
     (let desired_loc = slice item 0 2;
          obj_taskspec = slice item 3 (length item);
          objs = findall CHR ''('' CHR '')'' obj_taskspec
      in case objs of
           [] \<Rightarrow> Inl IndexError
         | first # _ \<Rightarrow>
             (let objs = rename_V20 (split_on CHR '','' first);
                  obj_conf = hd (split_on CHR ''('' obj_taskspec)
              in Inr (Bunch [(''type'', Str ''destination''),
                             (''location'', Str desired_loc),
                             (''object_names'', StrList objs),
                             (''object_config'', Str obj_conf)])))"

text \<open>
  A \<^verbatim>\<open>for\<close> loop that appends the record of each entry to the task list. An exception
  leaves the loop with the records appended so far.
\<close>

fun append_entries ::
  "(string \<Rightarrow> py_error + Bunch) \<Rightarrow> string list \<Rightarrow> Bunch list \<Rightarrow> py_error option \<times> Bunch list"
where
  "append_entries body [] task_list = (None, task_list)"
| "append_entries body (item # items) task_list =
     (case body item of
        Inl e \<Rightarrow> (Some e, task_list)
      | Inr b \<Rightarrow> append_entries body items (task_list @ [b]))"

text \<open>
  \<^verbatim>\<open>execute\<close> from the split on, lines 138-209: from the fields of the split to the
  outcome (or the exception raised) and the task list as it is left.
  \<^verbatim>\<open>task_situation[1]\<close> raises \<^verbatim>\<open>IndexError\<close> when the split gave one field.
\<close>

definition btt_situations ::
  "string list \<Rightarrow> Bunch list \<Rightarrow> (py_error + outcome) \<times> Bunch list"
where
  "btt_situations task_situation task_list =
     (let initial_situation = hd task_situation in
      if slice initial_situation 0 16 \<noteq> ''initialsituation''
      then (Inr wrong_task_format, task_list)
      else
        let initial_situation = slice initial_situation 16 (length initial_situation);
            init_tasks = findall CHR ''<'' CHR ''>'' initial_situation
        in
        case append_entries btt_initial_entry init_tasks task_list of
          (Some e, task_list) \<Rightarrow> (Inl e, task_list)
        | (None, task_list) \<Rightarrow>
            (case tl task_situation of
               [] \<Rightarrow> (Inl IndexError, task_list)
             | goal_situation # _ \<Rightarrow>
                 if slice goal_situation 0 13 \<noteq> ''goalsituation''
                 then (Inr wrong_task_format, task_list)
                 else
                   let goal_situation = slice goal_situation 13 (length goal_situation);
                       goal_tasks = findall CHR ''<'' CHR ''>'' goal_situation
                   in
                   (case append_entries btt_goal_entry goal_tasks task_list of
                      (Some e, task_list) \<Rightarrow> (Inl e, task_list)
                    | (None, task_list) \<Rightarrow> (Inr task_received, task_list))))"

text \<open>
  \<^verbatim>\<open>execute\<close>, lines 116-134, on the string received. \<^verbatim>\<open>transportation_task[0]\<close>
  raises \<^verbatim>\<open>IndexError\<close> when nothing follows the tag.
\<close>

definition btt_execute :: "string \<Rightarrow> Bunch list \<Rightarrow> (py_error + outcome) \<times> Bunch list" where
  "btt_execute received task_list =
     (if slice received 0 3 \<noteq> ''BTT'' then (Inr wrong_task_format, task_list)
      else
        let transportation_task = slice received 3 (length received) in
        if transportation_task = [] then (Inl IndexError, task_list)
        else if hd transportation_task \<noteq> CHR ''<'' \<or> last transportation_task \<noteq> CHR ''>''
        then (Inr wrong_task_format, task_list)
        else
          let transportation_task = slice transportation_task 1 (length transportation_task - 1);
              task_situation = split_on CHR '';'' transportation_task
          in btt_situations task_situation task_list)"

subsection \<open>\<^verbatim>\<open>get_basic_competitive_task\<close>\<close>

text \<open>
  The variable \<^verbatim>\<open>base_orientation\<close> is a local variable of \<^verbatim>\<open>execute\<close>: it is unbound
  until an entry starts with \<^verbatim>\<open>D\<close> or \<^verbatim>\<open>S\<close>, and an entry that starts with another
  character leaves it as it is. It is the state of the two loops: \<open>None\<close> is unbound.

  The body of the loop over the entries of the initial situation (lines 260-276):
  \<^verbatim>\<open>item[0]\<close> raises \<^verbatim>\<open>IndexError\<close> on an empty entry, \<^verbatim>\<open>objs[0]\<close> when there is no
  parenthesised group, and reading the unbound \<^verbatim>\<open>base_orientation\<close> raises
  \<^verbatim>\<open>UnboundLocalError\<close>.
\<close>

definition ctt_initial_entry ::
  "string \<Rightarrow> string option \<Rightarrow> (py_error + Bunch) \<times> string option"
where
  "ctt_initial_entry item base_orientation =
     (let desired_loc = slice item 0 2 in
      if item = [] then (Inl IndexError, base_orientation)
      else
        let base_orientation =
              (if hd item = CHR ''D'' then Some ''W''
               else if hd item = CHR ''S'' then Some ''E''
               else base_orientation);
            obj_taskspec = slice item 3 (length item);
            objs = findall CHR ''('' CHR '')'' obj_taskspec
        in case objs of
             [] \<Rightarrow> (Inl IndexError, base_orientation)
           | first # _ \<Rightarrow>
               (let objs = split_on CHR '','' first;
                    obj_conf = hd (split_on CHR ''('' obj_taskspec)
                in case base_orientation of
                     None \<Rightarrow> (Inl UnboundLocalError, base_orientation)
                   | Some orientation \<Rightarrow>
                       (Inr (Bunch [(''location'', Str desired_loc),
                                    (''orientation'', Str orientation),
                                    (''task'', Str ''fetch object workspace''),
                                    (''object_names'', StrList objs),
                                    (''object_config'', Str obj_conf)]),
                        base_orientation)))"

text \<open>The body of the loop over the entries of the goal situation (lines 297-314).\<close>

definition ctt_goal_entry ::
  "string \<Rightarrow> string option \<Rightarrow> (py_error + Bunch) \<times> string option"
where
  "ctt_goal_entry item base_orientation =
     (let desired_loc = slice item 0 2 in
      if item = [] then (Inl IndexError, base_orientation)
      else
        let base_orientation =
              (if hd item = CHR ''D'' then Some ''W''
               else if hd item = CHR ''S'' then Some ''E''
               else base_orientation);
            obj_taskspec = slice item 3 (length item);
            objs = findall CHR ''('' CHR '')'' obj_taskspec
        in case objs of
             [] \<Rightarrow> (Inl IndexError, base_orientation)
           | first # _ \<Rightarrow>
               (let objs = split_on CHR '','' first;
                    obj_conf = hd (split_on CHR ''('' obj_taskspec)
                in case base_orientation of
                     None \<Rightarrow> (Inl UnboundLocalError, base_orientation)
                   | Some orientation \<Rightarrow>
                       (Inr (Bunch [(''location'', Str desired_loc),
                                    (''orientation'', Str orientation),
                                    (''task'', Str ''place object in workspace''),
                                    (''object_names'', StrList objs),
                                    (''object_config'', Str obj_conf)]),
                        base_orientation)))"

text \<open>The \<^verbatim>\<open>for\<close> loop with the local variable carried from entry to entry.\<close>

fun append_oriented ::
  "(string \<Rightarrow> string option \<Rightarrow> (py_error + Bunch) \<times> string option) \<Rightarrow> string list \<Rightarrow>
   string option \<Rightarrow> Bunch list \<Rightarrow> py_error option \<times> string option \<times> Bunch list"
where
  "append_oriented body [] base_orientation task_list = (None, base_orientation, task_list)"
| "append_oriented body (item # items) base_orientation task_list =
     (case body item base_orientation of
        (Inl e, base_orientation) \<Rightarrow> (Some e, base_orientation, task_list)
      | (Inr b, base_orientation) \<Rightarrow>
          append_oriented body items base_orientation (task_list @ [b]))"


text \<open>\<^verbatim>\<open>execute\<close> from the split on, lines 244-318.\<close>

definition ctt_situations ::
  "string list \<Rightarrow> Bunch list \<Rightarrow> (py_error + outcome) \<times> Bunch list"
where
  "ctt_situations task_situation task_list =
     (let initial_situation = hd task_situation in
      if slice initial_situation 0 16 \<noteq> ''initialsituation''
      then (Inr wrong_task_format, task_list)
      else
        let initial_situation = slice initial_situation 16 (length initial_situation);
            init_tasks = findall CHR ''<'' CHR ''>'' initial_situation
        in
        case append_oriented ctt_initial_entry init_tasks None task_list of
          (Some e, base_orientation, task_list) \<Rightarrow> (Inl e, task_list)
        | (None, base_orientation, task_list) \<Rightarrow>
            (case tl task_situation of
               [] \<Rightarrow> (Inl IndexError, task_list)
             | goal_situation # _ \<Rightarrow>
                 if slice goal_situation 0 13 \<noteq> ''goalsituation''
                 then (Inr wrong_task_format, task_list)
                 else
                   let goal_situation = slice goal_situation 13 (length goal_situation);
                       goal_tasks = findall CHR ''<'' CHR ''>'' goal_situation
                   in
                   (case append_oriented ctt_goal_entry goal_tasks base_orientation task_list of
                      (Some e, base_orientation, task_list) \<Rightarrow> (Inl e, task_list)
                    | (None, base_orientation, task_list) \<Rightarrow> (Inr task_received, task_list))))"

text \<open>\<^verbatim>\<open>execute\<close>, lines 222-240, on the string received.\<close>

definition ctt_execute :: "string \<Rightarrow> Bunch list \<Rightarrow> (py_error + outcome) \<times> Bunch list" where
  "ctt_execute received task_list =
     (if slice received 0 3 \<noteq> ''CTT'' then (Inr wrong_task_format, task_list)
      else
        let competitive_task = slice received 3 (length received) in
        if competitive_task = [] then (Inl IndexError, task_list)
        else if hd competitive_task \<noteq> CHR ''<'' \<or> last competitive_task \<noteq> CHR ''>''
        then (Inr wrong_task_format, task_list)
        else
          let competitive_task = slice competitive_task 1 (length competitive_task - 1);
              task_situation = split_on CHR '';'' competitive_task
          in ctt_situations task_situation task_list)"

subsection \<open>\<^verbatim>\<open>get_task\<close> and \<^verbatim>\<open>re_get_task\<close>\<close>

text \<open>
  The user data of the two states: the keys they read and write. A key that was never
  written is \<open>None\<close>.
\<close>

record 'task userdata =
  test :: string
  simulation :: bool
  task :: "'task option"
  task_spec_copy :: "string option"

definition HARDCODED_SPECS :: "string \<rightharpoonup> string" where
  "HARDCODED_SPECS = map_of
     [(''BNT'', ''BNT<(D,W,3),(S1,E,3),(T3,N,3),(S3,S,3),(T1,S,3),(D1,E,3),(S4,N,3),(S5,N,3),(T4,W,3),(T2,S,3),(S2,E,3),(EXIT,E,3)>''),
      (''BMT'', ''BMT<D1,D1,D1,line(F20_20_B,R20,M20_100),D1>''),
      (''BTT'', ''BTT<initialsituation(<S1,(M20_100,S40_40_G)><S2,(F20_20_G,S40_40_B,F20_20_B)>);goalsituation(<S3,line(S40_40_G,F20_20_G)><D1,zigzag(F20_20_B,S40_40_B,M20_100)>)>''),
      (''PPT'', ''PPT<S6,S5>'')]"

text \<open>
  \<^verbatim>\<open>get_task.execute\<close> (lines 64-76). The referee box is a function of the state of the
  world outside, which a request changes; \<^verbatim>\<open>parse_task\<close> returns a task or raises.
  Only \<^verbatim>\<open>TaskSpecFormatError\<close> is caught.
\<close>

definition get_task_execute ::
  "(string \<Rightarrow> string \<Rightarrow> py_error + 'task) \<Rightarrow> ('w \<Rightarrow> (py_error + string) \<times> 'w) \<Rightarrow>
   'task userdata \<Rightarrow> 'w \<Rightarrow> (py_error + outcome) \<times> 'task userdata \<times> 'w"
where
  "get_task_execute parse_task obtainTaskSpecFromServer userdata world =
     (case (if \<not> simulation userdata then obtainTaskSpecFromServer world
            else (case HARDCODED_SPECS (test userdata) of
                    None \<Rightarrow> (Inl KeyError, world)
                  | Some spec \<Rightarrow> (Inr spec, world))) of
        (Inl e, world) \<Rightarrow> (Inl e, userdata, world)
      | (Inr task_spec, world) \<Rightarrow>
          (let userdata = userdata\<lparr>task_spec_copy := Some task_spec\<rparr> in
           case parse_task (test userdata) task_spec of
             Inr t \<Rightarrow> (Inr task_received, userdata\<lparr>task := Some t\<rparr>, world)
           | Inl e \<Rightarrow>
               if e = TaskSpecFormatError then (Inr wrong_task_format, userdata, world)
               else (Inl e, userdata, world)))"


subsection \<open>Well-formed strings\<close>

text \<open>
  The strings the order of the records is stated for. A situation is written as its
  entries, each between \<^verbatim>\<open><\<close> and \<^verbatim>\<open>>\<close>, one after the other inside parentheses; a
  task is the tag and, in the envelope, the initial and the goal situation with their
  labels, separated by \<^verbatim>\<open>;\<close>.
\<close>

definition entries_text :: "string list \<Rightarrow> string" where
  "entries_text es = concat (map (\<lambda>e. ''<'' @ e @ ''>'') es)"

definition situations_text :: "string \<Rightarrow> string list \<Rightarrow> string list \<Rightarrow> string" where
  "situations_text tag es1 es2 =
     tag @ ''<initialsituation('' @ entries_text es1 @ '');goalsituation('' @
       entries_text es2 @ '')>''"

text \<open>
  An entry is well formed when it holds none of the characters that end an entry, a
  line or a field, and has a parenthesised group after its location and comma. For
  the competitive task its location starts with \<^verbatim>\<open>D\<close> or \<^verbatim>\<open>S\<close>.
\<close>

definition wellformed_entry :: "string \<Rightarrow> bool" where
  "wellformed_entry e \<longleftrightarrow>
     CHR ''>'' \<notin> set e \<and> CHR 0x0A \<notin> set e \<and> CHR '';'' \<notin> set e \<and>
     findall CHR ''('' CHR '')'' (drop 3 e) \<noteq> []"

definition oriented_entry :: "string \<Rightarrow> bool" where
  "oriented_entry e \<longleftrightarrow>
     wellformed_entry e \<and> (case e of [] \<Rightarrow> False | c # _ \<Rightarrow> c = CHR ''D'' \<or> c = CHR ''S'')"

section \<open>Properties\<close>

subsection \<open>Slices, splits and matches\<close>

lemma slice_prefix: "slice s 0 n = take n s"
  by (simp add: slice_def)

lemma slice_suffix: "slice s n (length s) = drop n s"
  by (simp add: slice_def)

lemma split_on_not_Nil: "split_on c s \<noteq> []"
  by (induction s) (auto split: list.splits)

lemma split_on_no_separator: "c \<notin> set s \<Longrightarrow> split_on c s = [s]"
  by (induction s) auto

lemma split_on_append: "c \<notin> set a \<Longrightarrow> split_on c (a @ c # b) = a # split_on c b"
  by (induction a) auto

lemma split_on_field_free: "f \<in> set (split_on c s) \<Longrightarrow> c \<notin> set f"
  by (induction s arbitrary: f) (auto split: if_splits list.splits)

lemma split_on_first_two:
  assumes "split_on c s = f0 # f1 # rest"
  shows "split_on c (f0 @ c # f1) = [f0, f1]"
proof -
  have "c \<notin> set f0" "c \<notin> set f1"
    using split_on_field_free [of _ c s] assms by simp_all
  then show ?thesis
    by (simp add: split_on_append split_on_no_separator)
qed

lemma lazy_until_found:
  "c \<notin> set g \<Longrightarrow> CHR 0x0A \<notin> set g \<Longrightarrow> lazy_until c (g @ c # rest) = Some (g, rest)"
  by (induction g) auto

text \<open>A string in its envelope passes the first two checks and is split.\<close>

lemma btt_execute_envelope:
  "btt_execute (''BTT<'' @ body @ ''>'') task_list =
   btt_situations (split_on CHR '';'' body) task_list"
  by (simp add: btt_execute_def slice_def)

lemma ctt_execute_envelope:
  "ctt_execute (''CTT<'' @ body @ ''>'') task_list =
   ctt_situations (split_on CHR '';'' body) task_list"
  by (simp add: ctt_execute_def slice_def)

subsection \<open>The tag\<close>

text \<open>
  C9. A string whose first three characters are not the tag of the state (\<^verbatim>\<open>BTT\<close> for
  the transportation task, \<^verbatim>\<open>CTT\<close> for the competitive one; the comparison is exact,
  so case matters) gives the outcome \<^verbatim>\<open>wrong_task_format\<close>, no exception, and the task
  list is left as it was: no record is appended.
\<close>

theorem prefix_mismatch_rejected:
  "(take 3 s \<noteq> ''BTT'' \<longrightarrow> btt_execute s task_list = (Inr wrong_task_format, task_list)) \<and>
   (take 3 s \<noteq> ''CTT'' \<longrightarrow> ctt_execute s task_list = (Inr wrong_task_format, task_list))"
  by (simp add: btt_execute_def ctt_execute_def slice_def)

theorem prefix_mismatch_rejected_witness:
  "take 3 ''btt<>'' \<noteq> ''BTT'' \<and> btt_execute ''btt<>'' [] = (Inr wrong_task_format, []) \<and>
   take 3 ''BT'' \<noteq> ''CTT'' \<and> ctt_execute ''BT'' [] = (Inr wrong_task_format, [])"
  using prefix_mismatch_rejected [of "''btt<>''" "[]"] prefix_mismatch_rejected [of "''BT''" "[]"]
  by simp

subsection \<open>Malformed strings\<close>

text \<open>
  C2. A malformed string does not always end in the outcome \<^verbatim>\<open>wrong_task_format\<close>.
  The tag alone, a body with a single field, and an entry without a parenthesised
  group each raise \<^verbatim>\<open>IndexError\<close>, at \<^verbatim>\<open>transportation_task[0]\<close>,
  \<^verbatim>\<open>task_situation[1]\<close> and \<^verbatim>\<open>objs[0]\<close>; the second one after the records of the
  initial situation were appended.
\<close>

theorem malformed_input_raises:
  "btt_execute ''BTT'' [] = (Inl IndexError, []) \<and>
   ctt_execute ''CTT'' [] = (Inl IndexError, []) \<and>
   btt_execute ''BTT<initialsituation(<S1,(A)>)>'' [] =
     (Inl IndexError,
      [Bunch [(''type'', Str ''source''), (''location'', Str ''S1''),
              (''object_names'', StrList [''A''])]]) \<and>
   btt_execute ''BTT<initialsituation(<S1,A>);goalsituation()>'' [] = (Inl IndexError, [])"
  by code_simp

theorem malformed_input_raises_witness:
  "fst (btt_execute ''BTT'' []) \<noteq> Inr wrong_task_format"
  using malformed_input_raises by simp

subsection \<open>Object names\<close>

text \<open>
  The transportation task never stores the name \<^verbatim>\<open>V20\<close>, in either situation.
\<close>

lemma btt_initial_entry_renames:
  "btt_initial_entry item = Inr b \<Longrightarrow> getattr b ''object_names'' = Some (StrList objs) \<Longrightarrow>
   ''V20'' \<notin> set objs"
  by (auto simp: btt_initial_entry_def rename_V20_def Let_def split: list.splits)

lemma btt_goal_entry_renames:
  "btt_goal_entry item = Inr b \<Longrightarrow> getattr b ''object_names'' = Some (StrList objs) \<Longrightarrow>
   ''V20'' \<notin> set objs"
  by (auto simp: btt_goal_entry_def rename_V20_def Let_def split: list.splits)

text \<open>
  C4. The competitive task has no such step: a \<^verbatim>\<open>V20\<close> in the string is stored as
  \<^verbatim>\<open>V20\<close>, in the initial and in the goal situation.
\<close>

theorem ctt_stores_V20:
  "ctt_execute ''CTT<initialsituation(<S1,(V20)>);goalsituation(<D1,(V20)>)>'' [] =
   (Inr task_received,
    [Bunch [(''location'', Str ''S1''), (''orientation'', Str ''E''),
            (''task'', Str ''fetch object workspace''),
            (''object_names'', StrList [''V20'']), (''object_config'', Str [])],
     Bunch [(''location'', Str ''D1''), (''orientation'', Str ''W''),
            (''task'', Str ''place object in workspace''),
            (''object_names'', StrList [''V20'']), (''object_config'', Str [])]])"
  by code_simp

theorem ctt_stores_V20_witness:
  "map (\<lambda>b. getattr b ''object_names'')
     (snd (ctt_execute ''CTT<initialsituation(<S1,(V20)>);goalsituation(<D1,(V20)>)>'' [])) =
   [Some (StrList [''V20'']), Some (StrList [''V20''])]"
  using ctt_stores_V20 by simp

subsection \<open>Orientation\<close>

text \<open>
  C5. An entry of the competitive task whose location starts with neither \<^verbatim>\<open>D\<close> nor
  \<^verbatim>\<open>S\<close> does not end in the outcome \<^verbatim>\<open>wrong_task_format\<close>: as the first entry it
  raises \<^verbatim>\<open>UnboundLocalError\<close>, and after an entry that set \<^verbatim>\<open>base_orientation\<close> it is
  stored with the orientation of that entry.
\<close>

theorem ctt_unmapped_orientation:
  "ctt_execute ''CTT<initialsituation(<T1,(A)>);goalsituation(<D1,(A)>)>'' [] =
     (Inl UnboundLocalError, []) \<and>
   ctt_execute ''CTT<initialsituation(<D1,(A)><T1,(B)>);goalsituation()>'' [] =
     (Inr task_received,
      [Bunch [(''location'', Str ''D1''), (''orientation'', Str ''W''),
              (''task'', Str ''fetch object workspace''),
              (''object_names'', StrList [''A'']), (''object_config'', Str [])],
       Bunch [(''location'', Str ''T1''), (''orientation'', Str ''W''),
              (''task'', Str ''fetch object workspace''),
              (''object_names'', StrList [''B'']), (''object_config'', Str [])]])"
  by code_simp

theorem ctt_unmapped_orientation_witness:
  "fst (ctt_execute ''CTT<initialsituation(<T1,(A)>);goalsituation(<D1,(A)>)>'' []) =
     Inl UnboundLocalError \<and>
   fst (ctt_execute ''CTT<initialsituation(<D1,(A)><T1,(B)>);goalsituation()>'' []) =
     Inr task_received"
  using ctt_unmapped_orientation by simp

subsection \<open>Configuration\<close>

text \<open>
  C6. The records of the initial situation of the transportation task have no attribute
  \<^verbatim>\<open>object_config\<close>: the text before the parenthesis (here \<^verbatim>\<open>line\<close>) is computed and
  dropped. The records of the goal situation have the attribute.
\<close>

theorem btt_initial_record_lacks_config:
  "btt_execute ''BTT<initialsituation(<S1,line(A)>);goalsituation(<S2,line(A)>)>'' [] =
     (Inr task_received,
      [Bunch [(''type'', Str ''source''), (''location'', Str ''S1''),
              (''object_names'', StrList [''A''])],
       Bunch [(''type'', Str ''destination''), (''location'', Str ''S2''),
              (''object_names'', StrList [''A'']), (''object_config'', Str ''line'')]]) \<and>
   map (\<lambda>b. hasattr b ''object_config'')
     (snd (btt_execute ''BTT<initialsituation(<S1,line(A)>);goalsituation(<S2,line(A)>)>'' [])) =
     [False, True]"
  by code_simp

theorem btt_initial_record_lacks_config_witness:
  "map (\<lambda>b. getattr b ''object_config'')
     (snd (btt_execute ''BTT<initialsituation(<S1,line(A)>);goalsituation(<S2,line(A)>)>'' [])) =
   [None, Some (Str ''line'')]"
  using btt_initial_record_lacks_config by simp

subsection \<open>The number of fields\<close>

lemma btt_situations_first_two:
  "btt_situations (f0 # f1 # rest) task_list = btt_situations [f0, f1] task_list"
  by (simp add: btt_situations_def split: prod.splits option.splits)

lemma ctt_situations_first_two:
  "ctt_situations (f0 # f1 # rest) task_list = ctt_situations [f0, f1] task_list"
  by (simp add: ctt_situations_def split: prod.splits option.splits)

text \<open>
  C3, as the code has it. The number of fields is not checked. When the body splits on
  \<^verbatim>\<open>;\<close> into two fields or more, the first is read as the initial situation, the second as
  the goal situation and the others are not read: the outcome and the task list are
  those of the string with the first two fields only.
\<close>

theorem extra_fields_ignored:
  assumes "split_on CHR '';'' body = f0 # f1 # rest"
  shows "btt_execute (''BTT<'' @ body @ ''>'') task_list =
           btt_execute (''BTT<'' @ f0 @ '';'' @ f1 @ ''>'') task_list \<and>
         ctt_execute (''CTT<'' @ body @ ''>'') task_list =
           ctt_execute (''CTT<'' @ f0 @ '';'' @ f1 @ ''>'') task_list"
proof -
  have two: "split_on CHR '';'' (f0 @ '';'' @ f1) = [f0, f1]"
    using split_on_first_two [OF assms] by simp
  have "btt_execute (''BTT<'' @ body @ ''>'') task_list = btt_situations [f0, f1] task_list"
    unfolding btt_execute_envelope assms by (rule btt_situations_first_two)
  moreover have "btt_execute (''BTT<'' @ (f0 @ '';'' @ f1) @ ''>'') task_list =
      btt_situations [f0, f1] task_list"
    unfolding btt_execute_envelope two ..
  moreover have "ctt_execute (''CTT<'' @ body @ ''>'') task_list =
      ctt_situations [f0, f1] task_list"
    unfolding ctt_execute_envelope assms by (rule ctt_situations_first_two)
  moreover have "ctt_execute (''CTT<'' @ (f0 @ '';'' @ f1) @ ''>'') task_list =
      ctt_situations [f0, f1] task_list"
    unfolding ctt_execute_envelope two ..
  ultimately show ?thesis by simp
qed

theorem extra_fields_ignored_witness:
  "btt_execute ''BTT<initialsituation(<S1,(A)>);goalsituation(<S2,(A)>);extra>'' [] =
     btt_execute ''BTT<initialsituation(<S1,(A)>);goalsituation(<S2,(A)>)>'' [] \<and>
   ctt_execute ''CTT<initialsituation(<S1,(A)>);goalsituation(<S2,(A)>);extra>'' [] =
     ctt_execute ''CTT<initialsituation(<S1,(A)>);goalsituation(<S2,(A)>)>'' []"
proof -
  have split: "split_on CHR '';'' ''initialsituation(<S1,(A)>);goalsituation(<S2,(A)>);extra'' =
      ''initialsituation(<S1,(A)>)'' # ''goalsituation(<S2,(A)>)'' # [''extra'']"
    by code_simp
  from extra_fields_ignored [OF split, of "[]"] show ?thesis by simp
qed

text \<open>
  The claim as stated fails: a body of three fields is accepted by both states.
\<close>

theorem third_field_accepted:
  "length (split_on CHR '';'' ''initialsituation(<S1,(A)>);goalsituation(<S2,(A)>);extra'') = 3 \<and>
   fst (btt_execute ''BTT<initialsituation(<S1,(A)>);goalsituation(<S2,(A)>);extra>'' []) =
     Inr task_received \<and>
   fst (ctt_execute ''CTT<initialsituation(<S1,(A)>);goalsituation(<S2,(A)>);extra>'' []) =
     Inr task_received"
  by code_simp

subsection \<open>Parsing again and the simulation\<close>



lemma HARDCODED_SPECS_keys:
  "HARDCODED_SPECS ''BNT'' \<noteq> None" "HARDCODED_SPECS ''BMT'' \<noteq> None"
  "HARDCODED_SPECS ''BTT'' \<noteq> None" "HARDCODED_SPECS ''PPT'' \<noteq> None"
  by (simp_all add: HARDCODED_SPECS_def)

lemma get_task_simulated:
  "simulation u \<Longrightarrow> HARDCODED_SPECS (test u) = Some s \<Longrightarrow>
   get_task_execute parse_task server u w =
     (case parse_task (test u) s of
        Inr t \<Rightarrow> (Inr task_received, u\<lparr>task_spec_copy := Some s, task := Some t\<rparr>, w)
      | Inl e \<Rightarrow> (if e = TaskSpecFormatError then Inr wrong_task_format else Inl e,
                  u\<lparr>task_spec_copy := Some s\<rparr>, w))"
  by (simp add: get_task_execute_def Let_def split: sum.splits)

lemma get_task_simulated_unknown:
  "simulation u \<Longrightarrow> HARDCODED_SPECS (test u) = None \<Longrightarrow>
   get_task_execute parse_task server u w = (Inl KeyError, u, w)"
  by (simp add: get_task_execute_def)

text \<open>
  C10. In a simulation \<^verbatim>\<open>get_task\<close> does not ask the referee box: the result is the
  same whatever the referee box would answer, and the state of the world outside is
  left as it was. For the tests \<^verbatim>\<open>BNT\<close>, \<^verbatim>\<open>BMT\<close>, \<^verbatim>\<open>BTT\<close> and \<^verbatim>\<open>PPT\<close> there is a
  hard-coded string. The string parsed is the hard-coded string of the test: it is
  stored in \<^verbatim>\<open>task_spec_copy\<close>, the outcome is \<^verbatim>\<open>task_received\<close> with the task that
  \<^verbatim>\<open>parse_task\<close> makes of it, or \<^verbatim>\<open>wrong_task_format\<close> when \<^verbatim>\<open>parse_task\<close> raises
  \<^verbatim>\<open>TaskSpecFormatError\<close> (another exception is passed on); a test without a
  hard-coded string raises \<^verbatim>\<open>KeyError\<close>. So two runs in a simulation for the same test
  give the same outcome (or exception), the same stored string where the test has one,
  and with the outcome \<^verbatim>\<open>task_received\<close> the same task, whatever the user data held
  before, the referee box and the world outside.
\<close>

theorem simulation_is_deterministic:
  assumes "simulation u"
  shows "get_task_execute parse_task server u w = get_task_execute parse_task server' u w \<and>
         snd (snd (get_task_execute parse_task server u w)) = w \<and>
         (test u \<in> {''BNT'', ''BMT'', ''BTT'', ''PPT''} \<longrightarrow>
            HARDCODED_SPECS (test u) \<noteq> None \<and>
            task_spec_copy (fst (snd (get_task_execute parse_task server u w))) =
              HARDCODED_SPECS (test u)) \<and>
         (HARDCODED_SPECS (test u) = Some s \<longrightarrow>
            get_task_execute parse_task server u w =
              (case parse_task (test u) s of
                 Inr t \<Rightarrow>
                   (Inr task_received, u\<lparr>task_spec_copy := Some s, task := Some t\<rparr>, w)
               | Inl e \<Rightarrow>
                   (if e = TaskSpecFormatError then Inr wrong_task_format else Inl e,
                    u\<lparr>task_spec_copy := Some s\<rparr>, w))) \<and>
         (HARDCODED_SPECS (test u) = None \<longrightarrow>
            get_task_execute parse_task server u w = (Inl KeyError, u, w)) \<and>
         (simulation u' \<and> test u' = test u \<longrightarrow>
            fst (get_task_execute parse_task server u w) =
              fst (get_task_execute parse_task server' u' w') \<and>
            (HARDCODED_SPECS (test u) \<noteq> None \<longrightarrow>
               task_spec_copy (fst (snd (get_task_execute parse_task server u w))) =
                 task_spec_copy (fst (snd (get_task_execute parse_task server' u' w')))) \<and>
            (fst (get_task_execute parse_task server u w) = Inr task_received \<longrightarrow>
               task (fst (snd (get_task_execute parse_task server u w))) =
                 task (fst (snd (get_task_execute parse_task server' u' w')))))"
proof (cases "HARDCODED_SPECS (test u)")
  case None
  have no_key: "test u \<notin> {''BNT'', ''BMT'', ''BTT'', ''PPT''}"
    using None HARDCODED_SPECS_keys by auto
  have run: "\<And>srv. get_task_execute parse_task srv u w = (Inl KeyError, u, w)"
    using assms None by (rule get_task_simulated_unknown)
  have run': "simulation u' \<and> test u' = test u \<Longrightarrow>
      get_task_execute parse_task server' u' w' = (Inl KeyError, u', w')"
    using None by (simp add: get_task_simulated_unknown)
  show ?thesis
    using no_key None run run' by (simp only: run) auto
next
  case (Some s0)
  let ?res = "\<lambda>v x. case parse_task (test u) s0 of
       Inr t \<Rightarrow> (Inr task_received, v\<lparr>task_spec_copy := Some s0, task := Some t\<rparr>, x)
     | Inl e \<Rightarrow> (if e = TaskSpecFormatError then Inr wrong_task_format else Inl e,
                  v\<lparr>task_spec_copy := Some s0\<rparr>, x)"
  have run: "\<And>srv. get_task_execute parse_task srv u w = ?res u w"
    using assms Some by (rule get_task_simulated)
  have run': "simulation u' \<and> test u' = test u \<Longrightarrow>
      get_task_execute parse_task server' u' w' = ?res u' w'"
    using Some by (simp add: get_task_simulated)
  show ?thesis
    using Some run' by (simp only: run) (auto split: sum.splits)
qed


theorem simulation_is_deterministic_witness:
  "get_task_execute (\<lambda>t s. if t = take 3 s then Inr s else Inl TaskSpecFormatError)
     (\<lambda>w::nat. (Inr ''PPT<S1,S2>'', Suc w))
     \<lparr>test = ''PPT'', simulation = True, task = None, task_spec_copy = None\<rparr> 0 =
   (Inr task_received,
    \<lparr>test = ''PPT'', simulation = True, task = Some ''PPT<S6,S5>'',
     task_spec_copy = Some ''PPT<S6,S5>''\<rparr>, 0) \<and>
   fst (get_task_execute (\<lambda>t s. if t = take 3 s then Inr s else Inl TaskSpecFormatError)
     (\<lambda>w::nat. (Inl OtherError, w + 2))
     \<lparr>test = ''PPT'', simulation = True, task = Some ''old'',
      task_spec_copy = Some ''BTT<stale>''\<rparr> 7) = Inr task_received \<and>
   task (fst (snd (get_task_execute
     (\<lambda>t s. if t = take 3 s then Inr s else Inl TaskSpecFormatError)
     (\<lambda>w::nat. (Inl OtherError, w + 2))
     \<lparr>test = ''PPT'', simulation = True, task = Some ''old'',
      task_spec_copy = Some ''BTT<stale>''\<rparr> 7))) = Some ''PPT<S6,S5>''"
proof -
  let ?p = "\<lambda>t s. if t = take 3 s then Inr s else Inl TaskSpecFormatError :: py_error + string"
  let ?srv = "\<lambda>w::nat. (Inr ''PPT<S1,S2>'' :: py_error + string, Suc w)"
  let ?srv' = "\<lambda>w::nat. (Inl OtherError :: py_error + string, w + 2)"
  let ?u = "\<lparr>test = ''PPT'', simulation = True, task = None :: string option,
             task_spec_copy = None\<rparr>"
  let ?u' = "\<lparr>test = ''PPT'', simulation = True, task = Some ''old'',
             task_spec_copy = Some ''BTT<stale>''\<rparr>"
  have sim: "simulation ?u" by simp
  have ppt: "HARDCODED_SPECS (test ?u) = Some ''PPT<S6,S5>''"
    by (simp add: HARDCODED_SPECS_def)
  have other: "simulation ?u' \<and> test ?u' = test ?u" by simp
  note run = simulation_is_deterministic [OF sim, of ?p ?srv 0 ?srv' "''PPT<S6,S5>''" ?u' 7]
  from run ppt have first: "get_task_execute ?p ?srv ?u 0 =
      (case ?p (test ?u) ''PPT<S6,S5>'' of
         Inr t \<Rightarrow> (Inr task_received,
                   ?u\<lparr>task_spec_copy := Some ''PPT<S6,S5>'', task := Some t\<rparr>, 0)
       | Inl e \<Rightarrow> (if e = TaskSpecFormatError then Inr wrong_task_format else Inl e,
                   ?u\<lparr>task_spec_copy := Some ''PPT<S6,S5>''\<rparr>, 0))"
    by blast
  then have result: "get_task_execute ?p ?srv ?u 0 =
      (Inr task_received,
       \<lparr>test = ''PPT'', simulation = True, task = Some ''PPT<S6,S5>'',
        task_spec_copy = Some ''PPT<S6,S5>''\<rparr>, 0)"
    by simp
  from run other have same: "fst (get_task_execute ?p ?srv ?u 0) =
      fst (get_task_execute ?p ?srv' ?u' 7)"
    and parsed: "fst (get_task_execute ?p ?srv ?u 0) = Inr task_received \<longrightarrow>
      task (fst (snd (get_task_execute ?p ?srv ?u 0))) =
      task (fst (snd (get_task_execute ?p ?srv' ?u' 7)))"
    by blast+
  have "fst (get_task_execute ?p ?srv' ?u' 7) = Inr task_received"
    using same unfolding result by simp
  moreover have "task (fst (snd (get_task_execute ?p ?srv' ?u' 7))) = Some ''PPT<S6,S5>''"
    using parsed unfolding result by simp
  ultimately show ?thesis
    using result by blast
qed

subsection \<open>The order of the records\<close>

lemma findall_entries:
  assumes "\<forall>e\<in>set es. CHR ''>'' \<notin> set e \<and> CHR 0x0A \<notin> set e"
  shows "findall CHR ''<'' CHR ''>'' (entries_text es @ rest) =
         es @ findall CHR ''<'' CHR ''>'' rest"
  using assms
proof (induction es)
  case Nil
  then show ?case by (simp add: entries_text_def)
next
  case (Cons e es)
  have found: "lazy_until CHR ''>'' (e @ CHR ''>'' # (entries_text es @ rest)) =
      Some (e, entries_text es @ rest)"
    using Cons.prems by (simp add: lazy_until_found)
  have "entries_text (e # es) @ rest = CHR ''<'' # (e @ CHR ''>'' # (entries_text es @ rest))"
    by (simp add: entries_text_def)
  then show ?case
    using found Cons by simp
qed

lemma findall_situation:
  assumes "\<forall>e\<in>set es. CHR ''>'' \<notin> set e \<and> CHR 0x0A \<notin> set e"
  shows "findall CHR ''<'' CHR ''>'' (''('' @ entries_text es @ '')'') = es"
  using findall_entries [OF assms, of "'')''"] by simp

lemma entries_text_free:
  assumes "\<forall>e\<in>set es. c \<notin> set e" and "c \<noteq> CHR ''<''" and "c \<noteq> CHR ''>''"
  shows "c \<notin> set (entries_text es)"
  using assms by (induction es) (auto simp: entries_text_def)

lemma append_entries_all:
  assumes "\<forall>e\<in>set es. body e = Inr (f e)"
  shows "append_entries body es task_list = (None, task_list @ map f es)"
  using assms by (induction es arbitrary: task_list) auto

lemma append_oriented_all:
  assumes "\<forall>e\<in>set es. \<forall>bo. \<exists>bo'. body e bo = (Inr (f e), bo')"
  shows "\<exists>bo'. append_oriented body es bo task_list = (None, bo', task_list @ map f es)"
  using assms
proof (induction es arbitrary: bo task_list)
  case Nil
  then show ?case by simp
next
  case (Cons e es)
  then obtain bo1 where step: "body e bo = (Inr (f e), bo1)"
    by (meson list.set_intros(1))
  have "\<forall>e\<in>set es. \<forall>bo. \<exists>bo'. body e bo = (Inr (f e), bo')"
    using Cons.prems by simp
  from Cons.IH [OF this, of bo1 "task_list @ [f e]"] show ?case
    using step by simp
qed

lemma btt_initial_entry_wellformed:
  "wellformed_entry e \<Longrightarrow> \<exists>b. btt_initial_entry e = Inr b \<and> getattr b ''type'' = Some (Str ''source'')"
  by (auto simp: wellformed_entry_def btt_initial_entry_def slice_def Let_def split: list.splits)

lemma btt_goal_entry_wellformed:
  "wellformed_entry e \<Longrightarrow>
   \<exists>b. btt_goal_entry e = Inr b \<and> getattr b ''type'' = Some (Str ''destination'')"
  by (auto simp: wellformed_entry_def btt_goal_entry_def slice_def Let_def split: list.splits)

lemma ctt_initial_entry_oriented:
  "oriented_entry e \<Longrightarrow>
   \<exists>b bo'. ctt_initial_entry e bo = (Inr b, bo') \<and> fst (ctt_initial_entry e None) = Inr b"
  by (auto simp: oriented_entry_def wellformed_entry_def ctt_initial_entry_def slice_def Let_def
           split: list.splits)

lemma ctt_goal_entry_oriented:
  "oriented_entry e \<Longrightarrow>
   \<exists>b bo'. ctt_goal_entry e bo = (Inr b, bo') \<and> fst (ctt_goal_entry e None) = Inr b"
  by (auto simp: oriented_entry_def wellformed_entry_def ctt_goal_entry_def slice_def Let_def
           split: list.splits)

lemma situation_fields:
  assumes "\<forall>e\<in>set (es1 @ es2). wellformed_entry e"
  shows "split_on CHR '';''
           (''initialsituation('' @ entries_text es1 @ '');goalsituation('' @
              entries_text es2 @ '')'') =
         [''initialsituation('' @ entries_text es1 @ '')'',
          ''goalsituation('' @ entries_text es2 @ '')'']"
proof -
  have "\<forall>e\<in>set es1. CHR '';'' \<notin> set e" "\<forall>e\<in>set es2. CHR '';'' \<notin> set e"
    using assms by (auto simp: wellformed_entry_def)
  then have "CHR '';'' \<notin> set (entries_text es1)" "CHR '';'' \<notin> set (entries_text es2)"
    by (simp_all add: entries_text_free)
  then have "CHR '';'' \<notin> set (''initialsituation('' @ entries_text es1 @ '')'')"
    and "CHR '';'' \<notin> set (''goalsituation('' @ entries_text es2 @ '')'')"
    by simp_all
  from split_on_append [OF this(1)] split_on_no_separator [OF this(2)]
  show ?thesis by simp
qed

lemma btt_situations_wellformed:
  assumes "\<forall>e\<in>set (es1 @ es2). wellformed_entry e"
  shows "btt_situations
           [''initialsituation('' @ entries_text es1 @ '')'',
            ''goalsituation('' @ entries_text es2 @ '')''] task_list =
         (Inr task_received,
          task_list @ map (projr \<circ> btt_initial_entry) es1 @ map (projr \<circ> btt_goal_entry) es2)"
proof -
  have plain: "\<forall>e\<in>set es1. CHR ''>'' \<notin> set e \<and> CHR 0x0A \<notin> set e"
    "\<forall>e\<in>set es2. CHR ''>'' \<notin> set e \<and> CHR 0x0A \<notin> set e"
    using assms by (auto simp: wellformed_entry_def)
  have init: "\<forall>e\<in>set es1. btt_initial_entry e = Inr ((projr \<circ> btt_initial_entry) e)"
    using assms btt_initial_entry_wellformed by fastforce
  have goal: "\<forall>e\<in>set es2. btt_goal_entry e = Inr ((projr \<circ> btt_goal_entry) e)"
    using assms btt_goal_entry_wellformed by fastforce
  show ?thesis
    using findall_situation [OF plain(1)] findall_situation [OF plain(2)]
    by (simp add: btt_situations_def slice_def append_entries_all [OF init]
          append_entries_all [OF goal])
qed

lemma ctt_situations_wellformed:
  assumes "\<forall>e\<in>set (es1 @ es2). oriented_entry e"
  shows "ctt_situations
           [''initialsituation('' @ entries_text es1 @ '')'',
            ''goalsituation('' @ entries_text es2 @ '')''] task_list =
         (Inr task_received,
          task_list @ map (\<lambda>e. projr (fst (ctt_initial_entry e None))) es1 @
            map (\<lambda>e. projr (fst (ctt_goal_entry e None))) es2)"
proof -
  let ?f1 = "\<lambda>e. projr (fst (ctt_initial_entry e None))"
  let ?f2 = "\<lambda>e. projr (fst (ctt_goal_entry e None))"
  have plain: "\<forall>e\<in>set es1. CHR ''>'' \<notin> set e \<and> CHR 0x0A \<notin> set e"
    "\<forall>e\<in>set es2. CHR ''>'' \<notin> set e \<and> CHR 0x0A \<notin> set e"
    using assms by (auto simp: oriented_entry_def wellformed_entry_def)
  have init: "\<forall>e\<in>set es1. \<forall>bo. \<exists>bo'. ctt_initial_entry e bo = (Inr (?f1 e), bo')"
  proof (intro ballI allI)
    fix e bo assume "e \<in> set es1"
    then have "oriented_entry e" using assms by simp
    from ctt_initial_entry_oriented [OF this, of bo]
    show "\<exists>bo'. ctt_initial_entry e bo = (Inr (?f1 e), bo')" by auto
  qed
  have goal: "\<forall>e\<in>set es2. \<forall>bo. \<exists>bo'. ctt_goal_entry e bo = (Inr (?f2 e), bo')"
  proof (intro ballI allI)
    fix e bo assume "e \<in> set es2"
    then have "oriented_entry e" using assms by simp
    from ctt_goal_entry_oriented [OF this, of bo]
    show "\<exists>bo'. ctt_goal_entry e bo = (Inr (?f2 e), bo')" by auto
  qed
  obtain bo1 where first: "append_oriented ctt_initial_entry es1 None task_list =
      (None, bo1, task_list @ map ?f1 es1)"
    using append_oriented_all [OF init] by blast
  obtain bo2 where second:
    "append_oriented ctt_goal_entry es2 bo1 (task_list @ map ?f1 es1) =
      (None, bo2, (task_list @ map ?f1 es1) @ map ?f2 es2)"
    using append_oriented_all [OF goal] by blast
  show ?thesis
    using findall_situation [OF plain(1)] findall_situation [OF plain(2)] first second
    by (simp add: ctt_situations_def slice_def)
qed

lemma situations_text_BTT:
  "situations_text ''BTT'' es1 es2 =
   ''BTT<'' @ (''initialsituation('' @ entries_text es1 @ '');goalsituation('' @
     entries_text es2 @ '')'') @ ''>''"
  by (simp add: situations_text_def)

lemma situations_text_CTT:
  "situations_text ''CTT'' es1 es2 =
   ''CTT<'' @ (''initialsituation('' @ entries_text es1 @ '');goalsituation('' @
     entries_text es2 @ '')'') @ ''>''"
  by (simp add: situations_text_def)

text \<open>
  C7. A task written from well-formed entries ends in the outcome \<^verbatim>\<open>task_received\<close>
  and the task list is left with one record for each entry, in the order of the
  entries: the record at each position is the record that the loop body makes of the
  entry at that position, so no entry is dropped or repeated, and entries in another
  order give the records in that order. The records of the initial situation come
  before those of the goal situation; for the transportation task the former have
  the type \<^verbatim>\<open>source\<close> and the latter the type \<^verbatim>\<open>destination\<close>. The same holds for
  the competitive task when every location starts with \<^verbatim>\<open>D\<close> or \<^verbatim>\<open>S\<close>.
\<close>

theorem entries_in_order:
  "((\<forall>e\<in>set (es1 @ es2). wellformed_entry e) \<longrightarrow>
      (\<exists>rs1 rs2.
         btt_execute (situations_text ''BTT'' es1 es2) task_list =
           (Inr task_received, task_list @ rs1 @ rs2) \<and>
         map Inr rs1 = map btt_initial_entry es1 \<and>
         map Inr rs2 = map btt_goal_entry es2 \<and>
         (\<forall>r\<in>set rs1. getattr r ''type'' = Some (Str ''source'')) \<and>
         (\<forall>r\<in>set rs2. getattr r ''type'' = Some (Str ''destination'')))) \<and>
   ((\<forall>e\<in>set (es1 @ es2). oriented_entry e) \<longrightarrow>
      (\<exists>rs1 rs2.
         ctt_execute (situations_text ''CTT'' es1 es2) task_list =
           (Inr task_received, task_list @ rs1 @ rs2) \<and>
         map Inr rs1 = map (\<lambda>e. fst (ctt_initial_entry e None)) es1 \<and>
         map Inr rs2 = map (\<lambda>e. fst (ctt_goal_entry e None)) es2))"
proof (intro conjI impI)
  assume wf: "\<forall>e\<in>set (es1 @ es2). wellformed_entry e"
  let ?rs1 = "map (projr \<circ> btt_initial_entry) es1"
  let ?rs2 = "map (projr \<circ> btt_goal_entry) es2"
  have run: "btt_execute (situations_text ''BTT'' es1 es2) task_list =
      (Inr task_received, task_list @ ?rs1 @ ?rs2)"
    unfolding situations_text_BTT btt_execute_envelope situation_fields [OF wf]
    by (rule btt_situations_wellformed [OF wf])
  have each1: "\<forall>e\<in>set es1. \<exists>b. btt_initial_entry e = Inr b \<and>
      getattr b ''type'' = Some (Str ''source'')"
    using wf btt_initial_entry_wellformed by simp
  have each2: "\<forall>e\<in>set es2. \<exists>b. btt_goal_entry e = Inr b \<and>
      getattr b ''type'' = Some (Str ''destination'')"
    using wf btt_goal_entry_wellformed by simp
  have "map Inr ?rs1 = map btt_initial_entry es1"
    using each1 by auto
  moreover have "map Inr ?rs2 = map btt_goal_entry es2"
    using each2 by auto
  moreover have "\<forall>r\<in>set ?rs1. getattr r ''type'' = Some (Str ''source'')"
    using each1 by auto
  moreover have "\<forall>r\<in>set ?rs2. getattr r ''type'' = Some (Str ''destination'')"
    using each2 by auto
  ultimately show "\<exists>rs1 rs2.
         btt_execute (situations_text ''BTT'' es1 es2) task_list =
           (Inr task_received, task_list @ rs1 @ rs2) \<and>
         map Inr rs1 = map btt_initial_entry es1 \<and>
         map Inr rs2 = map btt_goal_entry es2 \<and>
         (\<forall>r\<in>set rs1. getattr r ''type'' = Some (Str ''source'')) \<and>
         (\<forall>r\<in>set rs2. getattr r ''type'' = Some (Str ''destination''))"
    using run by blast
next
  assume ori: "\<forall>e\<in>set (es1 @ es2). oriented_entry e"
  then have wf: "\<forall>e\<in>set (es1 @ es2). wellformed_entry e"
    by (simp add: oriented_entry_def)
  let ?rs1 = "map (\<lambda>e. projr (fst (ctt_initial_entry e None))) es1"
  let ?rs2 = "map (\<lambda>e. projr (fst (ctt_goal_entry e None))) es2"
  have run: "ctt_execute (situations_text ''CTT'' es1 es2) task_list =
      (Inr task_received, task_list @ ?rs1 @ ?rs2)"
    unfolding situations_text_CTT ctt_execute_envelope situation_fields [OF wf]
    by (rule ctt_situations_wellformed [OF ori])
  have "\<forall>e\<in>set es1. \<exists>b. fst (ctt_initial_entry e None) = Inr b"
    using ori ctt_initial_entry_oriented by fastforce
  then have "map Inr ?rs1 = map (\<lambda>e. fst (ctt_initial_entry e None)) es1"
    by auto
  moreover have "\<forall>e\<in>set es2. \<exists>b. fst (ctt_goal_entry e None) = Inr b"
    using ori ctt_goal_entry_oriented by fastforce
  then have "map Inr ?rs2 = map (\<lambda>e. fst (ctt_goal_entry e None)) es2"
    by auto
  ultimately show "\<exists>rs1 rs2.
         ctt_execute (situations_text ''CTT'' es1 es2) task_list =
           (Inr task_received, task_list @ rs1 @ rs2) \<and>
         map Inr rs1 = map (\<lambda>e. fst (ctt_initial_entry e None)) es1 \<and>
         map Inr rs2 = map (\<lambda>e. fst (ctt_goal_entry e None)) es2"
    using run by blast
qed


theorem entries_in_order_witness:
  "(\<exists>rs1 rs2.
      btt_execute ''BTT<initialsituation(<S1,(A,V20)><S2,(C)>);goalsituation(<D1,line(A)>)>'' [] =
        (Inr task_received, rs1 @ rs2) \<and>
      length rs1 = 2 \<and> length rs2 = 1) \<and>
   (\<exists>rs1 rs2.
      ctt_execute ''CTT<initialsituation(<S1,(A,V20)><S2,(C)>);goalsituation(<D1,line(A)>)>'' [] =
        (Inr task_received, rs1 @ rs2) \<and>
      length rs1 = 2 \<and> length rs2 = 1)"
proof -
  let ?es1 = "[''S1,(A,V20)'', ''S2,(C)'']"
  let ?es2 = "[''D1,line(A)'']"
  have ori: "\<forall>e\<in>set (?es1 @ ?es2). oriented_entry e"
    by (simp add: oriented_entry_def wellformed_entry_def)
  then have wf: "\<forall>e\<in>set (?es1 @ ?es2). wellformed_entry e"
    by (simp add: oriented_entry_def)
  have btt_text: "situations_text ''BTT'' ?es1 ?es2 =
      ''BTT<initialsituation(<S1,(A,V20)><S2,(C)>);goalsituation(<D1,line(A)>)>''"
    by (simp add: situations_text_def entries_text_def)
  have ctt_text: "situations_text ''CTT'' ?es1 ?es2 =
      ''CTT<initialsituation(<S1,(A,V20)><S2,(C)>);goalsituation(<D1,line(A)>)>''"
    by (simp add: situations_text_def entries_text_def)
  note order = entries_in_order [of ?es1 ?es2 "[]"]
  from order wf obtain rs1 rs2 where
    run: "btt_execute (situations_text ''BTT'' ?es1 ?es2) [] =
      (Inr task_received, [] @ rs1 @ rs2)"
    and m1: "map Inr rs1 = map btt_initial_entry ?es1"
    and m2: "map Inr rs2 = map btt_goal_entry ?es2"
    by blast
  from order ori obtain qs1 qs2 where
    crun: "ctt_execute (situations_text ''CTT'' ?es1 ?es2) [] =
      (Inr task_received, [] @ qs1 @ qs2)"
    and n1: "map Inr qs1 = map (\<lambda>e. fst (ctt_initial_entry e None)) ?es1"
    and n2: "map Inr qs2 = map (\<lambda>e. fst (ctt_goal_entry e None)) ?es2"
    by blast
  have "length rs1 = 2" "length rs2 = 1" "length qs1 = 2" "length qs2 = 1"
    using arg_cong [OF m1, of length] arg_cong [OF m2, of length]
      arg_cong [OF n1, of length] arg_cong [OF n2, of length]
    by simp_all
  then show ?thesis
    using run crun unfolding btt_text ctt_text by auto
qed

subsection \<open>The task list after a failure\<close>

















end
